theory Spec2Isabelle
  imports Complex_Main
begin

section \<open>N-body simulation: the acceleration kernel and the leapfrog loop\<close>

text \<open>
  The program is \<^verbatim>\<open>n_body_simulation.py\<close>: \<^verbatim>\<open>calc_acc\<close> computes the softened
  Newtonian accelerations of N point masses with NumPy array operations, and \<^verbatim>\<open>main\<close>
  advances positions and velocities by a kick-drift-kick loop, storing every snapshot and
  drawing a frame per step.

  Numbers are modelled as \<^typ>\<open>real\<close>: the theorems are about the arithmetic the program
  writes down, evaluated exactly, on arguments that are numbers. Two things that exact
  numbers cannot show are modelled apart. Whether a result is a number at all, and not an
  infinity or a NaN, is followed through the kernel in a second copy of it, whose values
  are a number or none. The one rounding that changes a whole number, the division that
  decides the count of steps, is an argument of the run.
\<close>

subsection \<open>Arrays\<close>

text \<open>
  An N x 3 array (positions, velocities, accelerations) is a list of N rows, each row a
  triple. An N x 1 array (masses, one coordinate of every body) is a list of N numbers.
  An N x N array is a list of N rows, each a list of N numbers.
\<close>

type_synonym vec3 = "real \<times> real \<times> real"
type_synonym column = "real list"
type_synonym matrix = "real list list"

datatype error = ValueError | IndexError | ZeroDivisionError | TypeError

text \<open>\<^verbatim>\<open>pos[:,0:1]\<close>, \<^verbatim>\<open>pos[:,1:2]\<close>, \<^verbatim>\<open>pos[:,2:3]\<close>: one coordinate of every body.\<close>

definition col0 :: "vec3 list \<Rightarrow> column" where
  "col0 a = map (\<lambda>(x, y, z). x) a"

definition col1 :: "vec3 list \<Rightarrow> column" where
  "col1 a = map (\<lambda>(x, y, z). y) a"

definition col2 :: "vec3 list \<Rightarrow> column" where
  "col2 a = map (\<lambda>(x, y, z). z) a"

text \<open>
  \<^verbatim>\<open>x.T - x\<close> for an N x 1 array \<open>x\<close>: the row vector broadcast against the column
  vector gives the N x N array whose entry (i, j) is \<open>x\<^sub>j - x\<^sub>i\<close>.
\<close>

definition sep :: "column \<Rightarrow> matrix" where
  "sep x = map (\<lambda>xi. map (\<lambda>xj. xj - xi) x) x"

text \<open>Elementwise operations on arrays of one shape, and with a scalar.\<close>

definition mat_sq :: "matrix \<Rightarrow> matrix" where
  "mat_sq a = map (map (\<lambda>v. v\<^sup>2)) a"

definition mat_add :: "matrix \<Rightarrow> matrix \<Rightarrow> matrix" where
  "mat_add a b = map2 (map2 (+)) a b"

definition mat_mul :: "matrix \<Rightarrow> matrix \<Rightarrow> matrix" where
  "mat_mul a b = map2 (map2 (*)) a b"

definition mat_add_scalar :: "matrix \<Rightarrow> real \<Rightarrow> matrix" where
  "mat_add_scalar a c = map (map (\<lambda>v. v + c)) a"

definition scalar_mul :: "real \<Rightarrow> matrix \<Rightarrow> matrix" where
  "scalar_mul c a = map (map (\<lambda>v. c * v)) a"

text \<open>
  \<^verbatim>\<open>inv_r3[inv_r3>0] = inv_r3[inv_r3>0]**(-1.5)\<close>: the entries selected by the mask are
  replaced by their power, every other entry keeps its value.
\<close>

definition mask_pow :: "matrix \<Rightarrow> matrix" where
  "mask_pow a = map (map (\<lambda>v. if 0 < v then v powr (- (3 / 2)) else v)) a"

text \<open>
  \<^verbatim>\<open>a @ mass\<close> for an N x N array and an M x 1 array: NumPy raises ValueError unless the
  number of columns of \<open>a\<close> is M. All the matrices the kernel multiplies are square, so
  the one without rows has no columns either.
\<close>

definition ncols :: "matrix \<Rightarrow> nat" where
  "ncols a = (case a of [] \<Rightarrow> 0 | r # _ \<Rightarrow> length r)"

definition matmul :: "matrix \<Rightarrow> column \<Rightarrow> error + column" where
  "matmul a v =
     (if ncols a \<noteq> length v then Inl ValueError
      else Inr (map (\<lambda>r. sum_list (map2 (*) r v)) a))"

text \<open>\<^verbatim>\<open>np.hstack((ax,ay,az))\<close> for three N x 1 arrays.\<close>

definition hstack :: "column \<Rightarrow> column \<Rightarrow> column \<Rightarrow> vec3 list" where
  "hstack ax ay az = zip ax (zip ay az)"

subsection \<open>The acceleration kernel\<close>

text \<open>
  Line 28, \<^verbatim>\<open>dx**2 + dy**2 + dz**2 + softening**2\<close>, and line 29, the masked power
  written into the same array.
\<close>

definition r2_of :: "matrix \<Rightarrow> matrix \<Rightarrow> matrix \<Rightarrow> real \<Rightarrow> matrix" where
  "r2_of dx dy dz softening =
     mat_add_scalar (mat_add (mat_add (mat_sq dx) (mat_sq dy)) (mat_sq dz)) (softening\<^sup>2)"

definition calc_acc :: "vec3 list \<Rightarrow> column \<Rightarrow> real \<Rightarrow> real \<Rightarrow> error + vec3 list" where
  "calc_acc p mass G softening =
     (let x = col0 p; y = col1 p; z = col2 p;
          dx = sep x; dy = sep y; dz = sep z;
          inv_r3 = r2_of dx dy dz softening;
          inv_r3 = mask_pow inv_r3
      in case matmul (scalar_mul G (mat_mul dx inv_r3)) mass of
           Inl e \<Rightarrow> Inl e
         | Inr ax \<Rightarrow>
             (case matmul (scalar_mul G (mat_mul dy inv_r3)) mass of
                Inl e \<Rightarrow> Inl e
              | Inr ay \<Rightarrow>
                  (case matmul (scalar_mul G (mat_mul dz inv_r3)) mass of
                     Inl e \<Rightarrow> Inl e
                   | Inr az \<Rightarrow> Inr (hstack ax ay az))))"

text \<open>
  The array \<^verbatim>\<open>inv_r3\<close> of a call, before and after line 29, as a function of the
  arguments.
\<close>

definition r2_matrix :: "vec3 list \<Rightarrow> real \<Rightarrow> matrix" where
  "r2_matrix p softening = r2_of (sep (col0 p)) (sep (col1 p)) (sep (col2 p)) softening"

definition inv_r3_matrix :: "vec3 list \<Rightarrow> real \<Rightarrow> matrix" where
  "inv_r3_matrix p softening = mask_pow (r2_matrix p softening)"

subsection \<open>The kernel as the specification words it\<close>

text \<open>
  The separation of body j from body i, the softened inverse cube of their distance, and
  the acceleration of body i as a sum over the other bodies. These follow the
  specification, not the program; the program is compared with them.
\<close>

definition r_ij :: "vec3 \<Rightarrow> vec3 \<Rightarrow> vec3" where
  "r_ij a b =
     (case a of (xi, yi, zi) \<Rightarrow> case b of (xj, yj, zj) \<Rightarrow> (xj - xi, yj - yi, zj - zi))"

definition norm2 :: "vec3 \<Rightarrow> real" where
  "norm2 r = (case r of (x, y, z) \<Rightarrow> x\<^sup>2 + y\<^sup>2 + z\<^sup>2)"

definition inv_r3_spec :: "vec3 \<Rightarrow> vec3 \<Rightarrow> real \<Rightarrow> real" where
  "inv_r3_spec a b eps =
     (if 0 < norm2 (r_ij a b) + eps\<^sup>2 then (norm2 (r_ij a b) + eps\<^sup>2) powr (- (3 / 2))
      else 0)"

definition acc_spec :: "vec3 list \<Rightarrow> column \<Rightarrow> real \<Rightarrow> real \<Rightarrow> nat \<Rightarrow> vec3" where
  "acc_spec p mass G eps i =
     (G * (\<Sum>j \<in> {..<length p} - {i}.
             fst (r_ij (p ! i) (p ! j)) * inv_r3_spec (p ! i) (p ! j) eps * mass ! j),
      G * (\<Sum>j \<in> {..<length p} - {i}.
             fst (snd (r_ij (p ! i) (p ! j))) * inv_r3_spec (p ! i) (p ! j) eps * mass ! j),
      G * (\<Sum>j \<in> {..<length p} - {i}.
             snd (snd (r_ij (p ! i) (p ! j))) * inv_r3_spec (p ! i) (p ! j) eps * mass ! j))"

text \<open>Adding one vector to every row, and the mass-weighted sum of the rows.\<close>

definition translate :: "vec3 \<Rightarrow> vec3 list \<Rightarrow> vec3 list" where
  "translate c p = map (\<lambda>(x, y, z). (x + fst c, y + fst (snd c), z + snd (snd c))) p"

definition weighted_sum :: "column \<Rightarrow> vec3 list \<Rightarrow> vec3" where
  "weighted_sum mass a =
     (sum_list (map2 (*) mass (col0 a)),
      sum_list (map2 (*) mass (col1 a)),
      sum_list (map2 (*) mass (col2 a)))"

text \<open>
  Entry (i, j) of \<^verbatim>\<open>inv_r3\<close> before and after line 29, as a function of the two rows
  of \<^verbatim>\<open>pos\<close>, and one entry of \<^verbatim>\<open>ax\<close>, \<^verbatim>\<open>ay\<close> or \<^verbatim>\<open>az\<close>: the matrix of line 31
  to 33 is built from the coordinate \<open>c\<close>, and the product with \<^verbatim>\<open>mass\<close> sums its row.
\<close>

definition d2 :: "real \<Rightarrow> vec3 \<Rightarrow> vec3 \<Rightarrow> real" where
  "d2 s a b =
     (fst b - fst a)\<^sup>2 + (fst (snd b) - fst (snd a))\<^sup>2 + (snd (snd b) - snd (snd a))\<^sup>2 + s\<^sup>2"

definition w :: "real \<Rightarrow> vec3 \<Rightarrow> vec3 \<Rightarrow> real" where
  "w s a b = (if 0 < d2 s a b then d2 s a b powr (- (3 / 2)) else d2 s a b)"

definition row_sum ::
  "(vec3 \<Rightarrow> real) \<Rightarrow> real \<Rightarrow> real \<Rightarrow> vec3 list \<Rightarrow> column \<Rightarrow> vec3 \<Rightarrow> real" where
  "row_sum c G s p mass a =
     sum_list (map2 (*) (map (\<lambda>b. G * ((c b - c a) * w s a b)) p) mass)"

subsection \<open>The kernel on a store\<close>

text \<open>
  NumPy arrays are objects: \<^verbatim>\<open>pos[:,0:1]\<close> is a view that shares the memory of
  \<^verbatim>\<open>pos\<close>, an arithmetic expression allocates its result, and line 29 writes into the
  array \<^verbatim>\<open>inv_r3\<close> in place. The store is the list of the arrays allocated so far, an
  address is an index into it, and allocation appends. A view is the address of its base
  array with the column it selects; its transpose \<^verbatim>\<open>x.T\<close> is a view as well. The
  function returns the store together with the error or the address of the result, so that
  what the call has written is visible in both cases.
\<close>

datatype ndarray = Nx3 "vec3 list" | Nx1 column | NxN matrix

type_synonym addr = nat
type_synonym store = "ndarray list"
type_synonym view = "addr \<times> nat"

definition alloc :: "store \<Rightarrow> ndarray \<Rightarrow> store \<times> addr" where
  "alloc h a = (h @ [a], length h)"

definition read_view :: "store \<Rightarrow> view \<Rightarrow> column" where
  "read_view h v =
     (case h ! fst v of
        Nx3 a \<Rightarrow> (if snd v = 0 then col0 a else if snd v = 1 then col1 a else col2 a)
      | _ \<Rightarrow> [])"

definition read_col :: "store \<Rightarrow> addr \<Rightarrow> column" where
  "read_col h a = (case h ! a of Nx1 c \<Rightarrow> c | _ \<Rightarrow> [])"

definition read_mat :: "store \<Rightarrow> addr \<Rightarrow> matrix" where
  "read_mat h a = (case h ! a of NxN m \<Rightarrow> m | _ \<Rightarrow> [])"

definition calc_acc_store ::
  "store \<Rightarrow> addr \<Rightarrow> addr \<Rightarrow> real \<Rightarrow> real \<Rightarrow> store \<times> (error + addr)" where
  "calc_acc_store h0 p mass G softening =
     (let x = (p, 0); y = (p, 1); z = (p, 2);
          (h1, dx) = alloc h0 (NxN (sep (read_view h0 x)));
          (h2, dy) = alloc h1 (NxN (sep (read_view h1 y)));
          (h3, dz) = alloc h2 (NxN (sep (read_view h2 z)));
          (h4, inv_r3) =
             alloc h3 (NxN (r2_of (read_mat h3 dx) (read_mat h3 dy) (read_mat h3 dz) softening));
          h5 = h4[inv_r3 := NxN (mask_pow (read_mat h4 inv_r3))]
      in case matmul (scalar_mul G (mat_mul (read_mat h5 dx) (read_mat h5 inv_r3)))
                (read_col h5 mass) of
           Inl e \<Rightarrow> (h5, Inl e)
         | Inr vx \<Rightarrow>
             (let (h6, ax) = alloc h5 (Nx1 vx)
              in case matmul (scalar_mul G (mat_mul (read_mat h6 dy) (read_mat h6 inv_r3)))
                        (read_col h6 mass) of
                   Inl e \<Rightarrow> (h6, Inl e)
                 | Inr vy \<Rightarrow>
                     (let (h7, ay) = alloc h6 (Nx1 vy)
                      in case matmul
                                (scalar_mul G (mat_mul (read_mat h7 dz) (read_mat h7 inv_r3)))
                                (read_col h7 mass) of
                           Inl e \<Rightarrow> (h7, Inl e)
                         | Inr vz \<Rightarrow>
                             (let (h8, az) = alloc h7 (Nx1 vz);
                                  (h9, a) =
                                     alloc h8
                                       (Nx3 (hstack (read_col h8 ax) (read_col h8 ay)
                                               (read_col h8 az)))
                              in (h9, Inr a)))))"

subsection \<open>The kernel with the values that are not finite\<close>

text \<open>
  A double is a number, or one of the infinities, or a NaN. Adding or multiplying with an
  operand that is not a number never gives a number (\<open>0 * inf\<close> and \<open>inf - inf\<close> are NaN),
  so for the question whether a result is a number one value \<open>None\<close> stands for all of
  them. The power \<^verbatim>\<open>v**(-1.5)\<close> is a number for a positive \<open>v\<close>, infinite for \<open>v = 0\<close>
  and NaN for a negative \<open>v\<close>. The arrays up to line 28 are built from the numbers of the
  arguments by subtraction, squaring and addition; from line 29 on the kernel is written
  here a second time with entries that may be \<open>None\<close>.
\<close>

type_synonym fl = "real option"

definition neg_power :: "real \<Rightarrow> fl" where
  "neg_power v = (if 0 < v then Some (v powr (- (3 / 2))) else None)"

definition mask_pow_fl :: "matrix \<Rightarrow> fl list list" where
  "mask_pow_fl a = map (map (\<lambda>v. if 0 < v then neg_power v else Some v)) a"

definition times_fl :: "real \<Rightarrow> fl \<Rightarrow> fl" where
  "times_fl c v = (case v of None \<Rightarrow> None | Some x \<Rightarrow> Some (c * x))"

definition plus_fl :: "fl \<Rightarrow> fl \<Rightarrow> fl" where
  "plus_fl u v =
     (case u of None \<Rightarrow> None | Some x \<Rightarrow> (case v of None \<Rightarrow> None | Some y \<Rightarrow> Some (x + y)))"

definition mat_mul_fl :: "matrix \<Rightarrow> fl list list \<Rightarrow> fl list list" where
  "mat_mul_fl a b = map2 (map2 times_fl) a b"

definition scalar_mul_fl :: "real \<Rightarrow> fl list list \<Rightarrow> fl list list" where
  "scalar_mul_fl c a = map (map (times_fl c)) a"

definition ncols_fl :: "fl list list \<Rightarrow> nat" where
  "ncols_fl a = (case a of [] \<Rightarrow> 0 | r # _ \<Rightarrow> length r)"

definition matmul_fl :: "fl list list \<Rightarrow> column \<Rightarrow> error + fl list" where
  "matmul_fl a v =
     (if ncols_fl a \<noteq> length v then Inl ValueError
      else Inr (map (\<lambda>r. foldr plus_fl (map2 (\<lambda>e m. times_fl m e) r v) (Some 0)) a))"

definition hstack_fl :: "fl list \<Rightarrow> fl list \<Rightarrow> fl list \<Rightarrow> (fl \<times> fl \<times> fl) list" where
  "hstack_fl ax ay az = zip ax (zip ay az)"

definition calc_acc_fl ::
  "vec3 list \<Rightarrow> column \<Rightarrow> real \<Rightarrow> real \<Rightarrow> error + (fl \<times> fl \<times> fl) list" where
  "calc_acc_fl p mass G softening =
     (let x = col0 p; y = col1 p; z = col2 p;
          dx = sep x; dy = sep y; dz = sep z;
          inv_r3 = r2_of dx dy dz softening;
          inv_r3 = mask_pow_fl inv_r3
      in case matmul_fl (scalar_mul_fl G (mat_mul_fl dx inv_r3)) mass of
           Inl e \<Rightarrow> Inl e
         | Inr ax \<Rightarrow>
             (case matmul_fl (scalar_mul_fl G (mat_mul_fl dy inv_r3)) mass of
                Inl e \<Rightarrow> Inl e
              | Inr ay \<Rightarrow>
                  (case matmul_fl (scalar_mul_fl G (mat_mul_fl dz inv_r3)) mass of
                     Inl e \<Rightarrow> Inl e
                   | Inr az \<Rightarrow> Inr (hstack_fl ax ay az))))"

text \<open>A row of numbers, as a row of values that may fail to be numbers.\<close>

definition fin3 :: "vec3 \<Rightarrow> fl \<times> fl \<times> fl" where
  "fin3 r = (case r of (x, y, z) \<Rightarrow> (Some x, Some y, Some z))"

subsection \<open>The time loop\<close>

text \<open>
  Elementwise arithmetic on N x 3 arrays: \<^verbatim>\<open>a * c\<close> and \<^verbatim>\<open>a / c\<close> for a scalar \<open>c\<close>,
  and the in-place \<^verbatim>\<open>a += b\<close>, for which NumPy wants \<open>b\<close> to have the rows of \<open>a\<close> or
  one row, which it then adds to every row of \<open>a\<close>, and raises ValueError otherwise.
\<close>

definition mul_scalar3 :: "vec3 list \<Rightarrow> real \<Rightarrow> vec3 list" where
  "mul_scalar3 a c = map (\<lambda>(x, y, z). (x * c, y * c, z * c)) a"

definition div_scalar3 :: "vec3 list \<Rightarrow> real \<Rightarrow> vec3 list" where
  "div_scalar3 a c = map (\<lambda>(x, y, z). (x / c, y / c, z / c)) a"

definition add3 :: "vec3 list \<Rightarrow> vec3 list \<Rightarrow> error + vec3 list" where
  "add3 a b =
     (if length b = length a
      then Inr (map2 (\<lambda>(x, y, z) (x2, y2, z2). (x + x2, y + y2, z + z2)) a b)
      else if length b = 1
      then Inr (map (\<lambda>(x, y, z). case hd b of (x2, y2, z2) \<Rightarrow> (x + x2, y + y2, z + z2)) a)
      else Inl ValueError)"

text \<open>
  \<^verbatim>\<open>pos_save[:,:,k] = p\<close>: IndexError when there is no slice \<open>k\<close>; the rows of \<open>p\<close>
  must be those of the slice, or one row, which then fills the slice; ValueError otherwise.
\<close>

definition set_slice :: "vec3 list list \<Rightarrow> nat \<Rightarrow> vec3 list \<Rightarrow> error + vec3 list list" where
  "set_slice ps k p =
     (if length ps \<le> k then Inl IndexError
      else if length p = length (ps ! k) then Inr (ps[k := p])
      else if length p = 1 then Inr (ps[k := replicate (length (ps ! k)) (hd p)])
      else Inl ValueError)"

text \<open>
  What \<^verbatim>\<open>matplotlib\<close> is asked to do: open the figure, write a frame to a file, show
  the figure. The drawing calls between \<^verbatim>\<open>plt.sca\<close> and \<^verbatim>\<open>set_yticks\<close> read
  \<^verbatim>\<open>pos_save\<close> and \<^verbatim>\<open>pos\<close> and end in the file that \<^verbatim>\<open>plt.savefig\<close> writes; the
  file's name stands for them.
\<close>

datatype plt_event = NewFigure | Savefig string | Show

text \<open>\<^verbatim>\<open>str(i)\<close> for a non-negative integer: its decimal digits.\<close>

definition digit :: "nat \<Rightarrow> char" where
  "digit d = ''0123456789'' ! d"

function str :: "nat \<Rightarrow> string" where
  "str n = (if n < 10 then [digit n] else str (n div 10) @ [digit (n mod 10)])"
  by pat_completeness auto
termination
  by (relation "measure (\<lambda>n. n)") auto

declare str.simps [simp del]

text \<open>
  The variables of \<^verbatim>\<open>main\<close> that the loop reads and writes. \<^verbatim>\<open>pos_save\<close> is the
  N x 3 x (Nt+1) array, held as the list of its Nt+1 slices \<^verbatim>\<open>pos_save[:,:,k]\<close>.
  Assigning to a slice copies the values, and \<^verbatim>\<open>pos\<close>, \<^verbatim>\<open>vel\<close>, \<^verbatim>\<open>acc\<close> and
  \<^verbatim>\<open>pos_save\<close> are four separate arrays, so the in-place updates of the loop are
  updates of one field each.
\<close>

record sim =
  pos :: "vec3 list"
  vel :: "vec3 list"
  acc :: "vec3 list"
  t :: real
  pos_save :: "vec3 list list"
  t_all :: "real list"
  events :: "plt_event list"

text \<open>Lines 81 to 97: kick, drift, new accelerations, kick, time, snapshot.\<close>

definition kdk_step :: "column \<Rightarrow> real \<Rightarrow> real \<Rightarrow> real \<Rightarrow> nat \<Rightarrow> sim \<Rightarrow> error + sim" where
  "kdk_step mass G softening dt i s0 =
     (case add3 (vel s0) (div_scalar3 (mul_scalar3 (acc s0) dt) 2) of
        Inl e \<Rightarrow> Inl e
      | Inr v1 \<Rightarrow>
          (let s1 = s0\<lparr>vel := v1\<rparr>
           in case add3 (pos s1) (mul_scalar3 (vel s1) dt) of
                Inl e \<Rightarrow> Inl e
              | Inr p1 \<Rightarrow>
                  (let s2 = s1\<lparr>pos := p1\<rparr>
                   in case calc_acc (pos s2) mass G softening of
                        Inl e \<Rightarrow> Inl e
                      | Inr a \<Rightarrow>
                          (let s3 = s2\<lparr>acc := a\<rparr>
                           in case add3 (vel s3) (div_scalar3 (mul_scalar3 (acc s3) dt) 2) of
                                Inl e \<Rightarrow> Inl e
                              | Inr v2 \<Rightarrow>
                                  (let s4 = s3\<lparr>vel := v2\<rparr>;
                                       s5 = s4\<lparr>t := t s4 + dt\<rparr>
                                   in case set_slice (pos_save s5) (Suc i) (pos s5) of
                                        Inl e \<Rightarrow> Inl e
                                      | Inr ps \<Rightarrow> Inr (s5\<lparr>pos_save := ps\<rparr>))))))"

text \<open>Lines 100 to 113: the frame of step \<open>i\<close>.\<close>

definition plot_frame :: "bool \<Rightarrow> int \<Rightarrow> nat \<Rightarrow> sim \<Rightarrow> sim" where
  "plot_frame plotRealTime Nt i s =
     (if plotRealTime \<or> int i = Nt - 1
      then s\<lparr>events := events s @ [Savefig (''images/'' @ str i @ ''.png'')]\<rparr>
      else s)"

definition loop_body ::
  "column \<Rightarrow> real \<Rightarrow> real \<Rightarrow> real \<Rightarrow> bool \<Rightarrow> int \<Rightarrow> nat \<Rightarrow> sim \<Rightarrow> error + sim" where
  "loop_body mass G softening dt plotRealTime Nt i s =
     (case kdk_step mass G softening dt i s of
        Inl e \<Rightarrow> Inl e
      | Inr s' \<Rightarrow> Inr (plot_frame plotRealTime Nt i s'))"

text \<open>\<^verbatim>\<open>for i in range(Nt): body\<close>, stopping at the first exception.\<close>

fun for_range :: "(nat \<Rightarrow> sim \<Rightarrow> error + sim) \<Rightarrow> nat list \<Rightarrow> sim \<Rightarrow> error + sim" where
  "for_range body [] s = Inr s"
| "for_range body (i # is) s =
     (case body i s of Inl e \<Rightarrow> Inl e | Inr s' \<Rightarrow> for_range body is s')"

text \<open>
  Lines 62 to 117 of \<^verbatim>\<open>main\<close>, with the initial conditions and the parameters as
  arguments. The number of steps is a whole number that the rounding of one division
  decides: line 66 takes the ceiling of the quotient \<^verbatim>\<open>tEnd/dt\<close> as the machine rounds
  it, and that quotient can lie on the other side of a whole number than the exact one.
  The division of doubles is therefore the argument \<open>fdiv\<close>; all other arithmetic is exact.
  Dividing the Python floats raises ZeroDivisionError when \<^verbatim>\<open>dt\<close> is zero;
  \<^verbatim>\<open>np.zeros\<close> raises ValueError for a negative dimension, and \<^verbatim>\<open>pos_save[:,:,0]\<close>
  raises IndexError when the last dimension is zero.
\<close>

definition run ::
  "(real \<Rightarrow> real \<Rightarrow> real) \<Rightarrow> vec3 list \<Rightarrow> vec3 list \<Rightarrow> column \<Rightarrow> real \<Rightarrow> real \<Rightarrow> real \<Rightarrow> real
     \<Rightarrow> bool \<Rightarrow> error + sim" where
  "run fdiv p v mass G softening dt tEnd plotRealTime =
     (case calc_acc p mass G softening of
        Inl e \<Rightarrow> Inl e
      | Inr a \<Rightarrow>
          if dt = 0 then Inl ZeroDivisionError
          else
            (let Nt = \<lceil>fdiv tEnd dt\<rceil> in
             if Nt + 1 < 0 then Inl ValueError
             else
               (case set_slice (replicate (nat (Nt + 1)) (replicate (length p) (0, 0, 0))) 0 p of
                  Inl e \<Rightarrow> Inl e
                | Inr ps \<Rightarrow>
                    (let s = \<lparr>pos = p, vel = v, acc = a, t = 0, pos_save = ps,
                              t_all = map (\<lambda>k. real k * dt) [0..<nat (Nt + 1)],
                              events = [NewFigure]\<rparr>
                     in case for_range (loop_body mass G softening dt plotRealTime Nt)
                               [0..<nat Nt] s of
                          Inl e \<Rightarrow> Inl e
                        | Inr s' \<Rightarrow> Inr (s'\<lparr>events := events s' @ [Show]\<rparr>)))))"

text \<open>
  Lines 44 to 60: the constants of \<^verbatim>\<open>main\<close> and its initial conditions. The draws of
  the seeded generator are the sequence \<open>randn\<close>; \<^verbatim>\<open>np.random.randn(N,3)\<close> takes 3N
  of them, row by row. Line 60 subtracts the mass-weighted mean velocity.
\<close>

definition randn_array :: "(nat \<Rightarrow> real) \<Rightarrow> nat \<Rightarrow> nat \<Rightarrow> vec3 list" where
  "randn_array randn k N =
     map (\<lambda>i. (randn (k + 3 * i), randn (k + 3 * i + 1), randn (k + 3 * i + 2))) [0..<N]"

definition mean_rows :: "vec3 list \<Rightarrow> vec3" where
  "mean_rows a =
     (sum_list (col0 a) / real (length a), sum_list (col1 a) / real (length a),
      sum_list (col2 a) / real (length a))"

definition to_com_frame :: "column \<Rightarrow> vec3 list \<Rightarrow> vec3 list" where
  "to_com_frame mass v =
     (let mv = map2 (\<lambda>m (x, y, z). (m * x, m * y, m * z)) mass v;
          (cx, cy, cz) = mean_rows mv;
          mbar = sum_list mass / real (length mass)
      in map (\<lambda>(x, y, z). (x - cx / mbar, y - cy / mbar, z - cz / mbar)) v)"

definition main :: "(real \<Rightarrow> real \<Rightarrow> real) \<Rightarrow> (nat \<Rightarrow> real) \<Rightarrow> error + sim" where
  "main fdiv randn =
     (let N = 100; tEnd = 10; dt = 1 / 100; softening = 1 / 10; G = 1; plotRealTime = True;
          mass = map (\<lambda>m. 20 * m / real N) (replicate N 1);
          p = randn_array randn 0 N;
          v = randn_array randn (3 * N) N;
          v = to_com_frame mass v
      in run fdiv p v mass G softening dt tEnd plotRealTime)"

subsection \<open>The time loop as the specification words it\<close>

text \<open>
  One row advanced by a rate over a time, \<open>x + v h\<close>; the same for every row of an array;
  the accelerations by the formula of the specification; and one transition of positions,
  velocities and accelerations: half a kick, the drift, the new accelerations, half a
  kick. These follow the specification; the program is compared with them.
\<close>

definition advance :: "vec3 \<Rightarrow> vec3 \<Rightarrow> real \<Rightarrow> vec3" where
  "advance x v h =
     (fst x + fst v * h, fst (snd x) + fst (snd v) * h, snd (snd x) + snd (snd v) * h)"

definition advance_all :: "vec3 list \<Rightarrow> vec3 list \<Rightarrow> real \<Rightarrow> vec3 list" where
  "advance_all xs vs h = map (\<lambda>k. advance (xs ! k) (vs ! k) h) [0..<length xs]"

definition accel_spec :: "vec3 list \<Rightarrow> column \<Rightarrow> real \<Rightarrow> real \<Rightarrow> vec3 list" where
  "accel_spec p mass G eps = map (acc_spec p mass G eps) [0..<length p]"

definition leapfrog_spec ::
  "column \<Rightarrow> real \<Rightarrow> real \<Rightarrow> real \<Rightarrow> vec3 list \<times> vec3 list \<times> vec3 list
     \<Rightarrow> vec3 list \<times> vec3 list \<times> vec3 list" where
  "leapfrog_spec mass G eps dt pva =
     (case pva of (p, v, a) \<Rightarrow>
        (let v1 = advance_all v a (dt / 2);
             p1 = advance_all p v1 dt;
             a1 = accel_spec p1 mass G eps;
             v2 = advance_all v1 a1 (dt / 2)
         in (p1, v2, a1)))"

text \<open>The files written in step \<open>i\<close>.\<close>

definition frames :: "bool \<Rightarrow> int \<Rightarrow> nat \<Rightarrow> plt_event list" where
  "frames plotRealTime Nt i =
     (if plotRealTime \<or> int i = Nt - 1 then [Savefig (''images/'' @ str i @ ''.png'')] else [])"

text \<open>
  What holds of the variables after \<open>j\<close> iterations of a loop of \<open>n\<close>, started from the
  positions, velocities and accelerations \<open>pva\<close> with the times \<open>ts\<close> and the events \<open>ev\<close>.
\<close>

definition loop_inv ::
  "column \<Rightarrow> real \<Rightarrow> real \<Rightarrow> real \<Rightarrow> bool \<Rightarrow> int \<Rightarrow> nat \<Rightarrow> nat
     \<Rightarrow> vec3 list \<times> vec3 list \<times> vec3 list \<Rightarrow> real list \<Rightarrow> plt_event list \<Rightarrow> nat \<Rightarrow> sim \<Rightarrow> bool" where
  "loop_inv mass G eps dt plotRealTime Nt N n pva ts ev j s \<longleftrightarrow>
     (pos s, vel s, acc s) = (leapfrog_spec mass G eps dt ^^ j) pva
     \<and> length (pos s) = N \<and> length (vel s) = N \<and> length (acc s) = N
     \<and> length (pos_save s) = Suc n
     \<and> (\<forall>k < Suc n. length (pos_save s ! k) = N)
     \<and> (\<forall>k \<le> j. pos_save s ! k = fst ((leapfrog_spec mass G eps dt ^^ k) pva))
     \<and> t s = real j * dt
     \<and> t_all s = ts
     \<and> events s = ev @ concat (map (frames plotRealTime Nt) [0..<j])"

section \<open>Properties of the acceleration kernel\<close>

subsection \<open>Every array of the kernel as a table over the rows of the positions\<close>

lemma map2_map_same: "map2 f (map g xs) (map h xs) = map (\<lambda>x. f (g x) (h x)) xs"
  by (induction xs) auto

lemma sep_col0: "sep (col0 p) = map (\<lambda>a. map (\<lambda>b. fst b - fst a) p) p"
  by (simp add: sep_def col0_def split_def comp_def)

lemma sep_col1: "sep (col1 p) = map (\<lambda>a. map (\<lambda>b. fst (snd b) - fst (snd a)) p) p"
  by (simp add: sep_def col1_def split_def comp_def)

lemma sep_col2: "sep (col2 p) = map (\<lambda>a. map (\<lambda>b. snd (snd b) - snd (snd a)) p) p"
  by (simp add: sep_def col2_def split_def comp_def)

lemma ncols_square: "ncols (map (\<lambda>a. map (g a) p) p) = length p"
  by (cases p) (simp_all add: ncols_def)

lemma mat_sq_tab: "mat_sq (map (\<lambda>a. map (f a) p) p) = map (\<lambda>a. map (\<lambda>b. (f a b)\<^sup>2) p) p"
  by (simp add: mat_sq_def comp_def)

lemma mat_add_tab:
  "mat_add (map (\<lambda>a. map (f a) p) p) (map (\<lambda>a. map (g a) p) p) =
     map (\<lambda>a. map (\<lambda>b. f a b + g a b) p) p"
  unfolding mat_add_def by (simp only: map2_map_same)

lemma mat_mul_tab:
  "mat_mul (map (\<lambda>a. map (f a) p) p) (map (\<lambda>a. map (g a) p) p) =
     map (\<lambda>a. map (\<lambda>b. f a b * g a b) p) p"
  unfolding mat_mul_def by (simp only: map2_map_same)

lemma mat_add_scalar_tab:
  "mat_add_scalar (map (\<lambda>a. map (f a) p) p) c = map (\<lambda>a. map (\<lambda>b. f a b + c) p) p"
  by (simp add: mat_add_scalar_def comp_def)

lemma scalar_mul_tab:
  "scalar_mul c (map (\<lambda>a. map (f a) p) p) = map (\<lambda>a. map (\<lambda>b. c * f a b) p) p"
  by (simp add: scalar_mul_def comp_def)

lemma mask_pow_tab:
  "mask_pow (map (\<lambda>a. map (f a) p) p) =
     map (\<lambda>a. map (\<lambda>b. if 0 < f a b then f a b powr (- (3 / 2)) else f a b) p) p"
  by (simp add: mask_pow_def comp_def)

lemma r2_matrix_tab: "r2_matrix p s = map (\<lambda>a. map (d2 s a) p) p"
  unfolding r2_matrix_def r2_of_def sep_col0 sep_col1 sep_col2 mat_sq_tab mat_add_tab
    mat_add_scalar_tab d2_def
  by (rule refl)

lemma inv_r3_matrix_tab: "inv_r3_matrix p s = map (\<lambda>a. map (w s a) p) p"
  unfolding inv_r3_matrix_def r2_matrix_tab mask_pow_tab w_def by (rule refl)

lemma hstack_tab: "hstack (map f p) (map g p) (map h p) = map (\<lambda>a. (f a, g a, h a)) p"
  unfolding hstack_def by (induction p) auto

lemma col_hstack_tab:
  "col0 (map (\<lambda>a. (f a, g a, h a)) p) = map f p"
  "col1 (map (\<lambda>a. (f a, g a, h a)) p) = map g p"
  "col2 (map (\<lambda>a. (f a, g a, h a)) p) = map h p"
  by (simp_all add: col0_def col1_def col2_def comp_def)

lemma matmul_tab:
  "matmul (map (\<lambda>a. map (f a) p) p) v =
     (if length p \<noteq> length v then Inl ValueError
      else Inr (map (\<lambda>a. sum_list (map2 (*) (map (f a) p) v)) p))"
  by (simp add: matmul_def ncols_square comp_def)

lemma calc_acc_tab:
  "calc_acc p mass G s =
     (if length p \<noteq> length mass then Inl ValueError
      else Inr (map (\<lambda>a. (row_sum fst G s p mass a,
                          row_sum (\<lambda>v. fst (snd v)) G s p mass a,
                          row_sum (\<lambda>v. snd (snd v)) G s p mass a)) p))"
proof -
  have inv: "mask_pow (r2_of (sep (col0 p)) (sep (col1 p)) (sep (col2 p)) s) =
      map (\<lambda>a. map (w s a) p) p"
    using inv_r3_matrix_tab[of p s] by (simp add: inv_r3_matrix_def r2_matrix_def)
  show ?thesis
    unfolding calc_acc_def Let_def inv
    unfolding sep_col0 sep_col1 sep_col2 mat_mul_tab scalar_mul_tab matmul_tab
    by (simp add: hstack_tab row_sum_def)
qed

lemma calc_acc_length: "calc_acc p mass G s = Inr a \<Longrightarrow> length a = length p"
  by (auto simp: calc_acc_tab split: if_splits)

lemma calc_acc_Inr: "length mass = length p \<Longrightarrow> \<exists>a. calc_acc p mass G s = Inr a"
  by (simp add: calc_acc_tab)

subsection \<open>The program against the formula of the specification\<close>

lemma d2_nonneg: "0 \<le> d2 s a b"
  by (simp add: d2_def)

lemma d2_sym: "d2 s a b = d2 s b a"
  by (simp add: d2_def power2_commute)

lemma w_sym: "w s a b = w s b a"
  by (simp add: w_def d2_sym[of s a b])

lemma d2_spec: "d2 s a b = norm2 (r_ij a b) + s\<^sup>2"
  by (simp add: d2_def norm2_def r_ij_def split_def)

lemma w_spec: "w s a b = inv_r3_spec a b s"
  using d2_nonneg[of s a b] by (simp add: w_def inv_r3_spec_def d2_spec)

lemma sum_list_map2_nth:
  "length ys = length xs \<Longrightarrow>
     sum_list (map2 f xs ys) = (\<Sum>j<length xs. f (xs ! j) (ys ! j))"
  by (simp add: sum_list_sum_nth atLeast0LessThan)

lemma row_sum_sum:
  "length mass = length p \<Longrightarrow>
     row_sum c G s p mass a = (\<Sum>j<length p. G * ((c (p ! j) - c a) * w s a (p ! j)) * mass ! j)"
  unfolding row_sum_def by (simp add: sum_list_map2_nth)

lemma row_sum_spec:
  assumes "length mass = length p" "i < length p"
  shows "row_sum c G s p mass (p ! i) =
     G * (\<Sum>j \<in> {..<length p} - {i}.
            (c (p ! j) - c (p ! i)) * inv_r3_spec (p ! i) (p ! j) s * mass ! j)"
proof -
  let ?g = "\<lambda>j. (c (p ! j) - c (p ! i)) * inv_r3_spec (p ! i) (p ! j) s * mass ! j"
  have "row_sum c G s p mass (p ! i) = (\<Sum>j<length p. G * ?g j)"
    using assms(1) by (simp add: row_sum_sum w_spec mult.assoc)
  also have "\<dots> = G * (\<Sum>j<length p. ?g j)"
    by (simp add: sum_distrib_left)
  also have "(\<Sum>j<length p. ?g j) = (\<Sum>j \<in> {..<length p} - {i}. ?g j)"
    by (rule sum.mono_neutral_right) (use assms(2) in auto)
  finally show ?thesis .
qed

lemma fst_r_ij: "fst (r_ij a b) = fst b - fst a"
  and fst_snd_r_ij: "fst (snd (r_ij a b)) = fst (snd b) - fst (snd a)"
  and snd_snd_r_ij: "snd (snd (r_ij a b)) = snd (snd b) - snd (snd a)"
  by (simp_all add: r_ij_def split_def)

lemma upt_2: "[0..<2] = [0, Suc 0]"
  by (simp add: upt_rec numeral_2_eq_2)

lemma lessThan_2_minus:
  "{..<Suc (Suc 0)} - {0} = {Suc 0}" "{..<Suc (Suc 0)} - {Suc 0} = {0}"
  by auto

lemma powr_4: "(4::real) powr (- (3 / 2)) = 1 / 8"
proof -
  have "(4::real) powr (3 / 2) = (2 powr 2) powr (3 / 2)" by simp
  also have "\<dots> = 2 powr 3" unfolding powr_powr by simp
  also have "\<dots> = 8" by simp
  finally have "(4::real) powr (3 / 2) = 8" .
  then show ?thesis by (simp add: powr_minus_divide)
qed

lemma powr_25: "(25::real) powr (- (3 / 2)) = 1 / 125"
proof -
  have "(25::real) powr (3 / 2) = (5 powr 2) powr (3 / 2)" by simp
  also have "\<dots> = 5 powr 3" unfolding powr_powr by simp
  also have "\<dots> = 125" by simp
  finally have "(25::real) powr (3 / 2) = 125" .
  then show ?thesis by (simp add: powr_minus_divide)
qed

lemma w_pair:
  "w 0 (- 1, 0, 0) (1, 0, 0) = 1 / 8" "w 0 (1, 0, 0) (- 1, 0, 0) = 1 / 8"
proof -
  have d: "d2 0 (- 1, 0, 0) (1, 0, 0) = 4" "d2 0 (1, 0, 0) (- 1, 0, 0) = 4"
    by (simp_all add: d2_def)
  show "w 0 (- 1, 0, 0) (1, 0, 0) = 1 / 8"
    unfolding w_def d by (simp add: powr_4)
  show "w 0 (1, 0, 0) (- 1, 0, 0) = 1 / 8"
    unfolding w_def d by (simp add: powr_4)
qed

text \<open>
  C1. When \<^verbatim>\<open>mass\<close> has as many rows as \<^verbatim>\<open>pos\<close>, \<^verbatim>\<open>calc_acc\<close> returns the
  N x 3 array whose row \<open>i\<close> is \<open>G\<close> times the sum over all \<open>j \<noteq> i\<close> of the
  separation \<open>pos\<^sub>j - pos\<^sub>i\<close> times the softened inverse cube times \<open>mass\<^sub>j\<close>, the inverse
  cube being the power \<open>- 3/2\<close> of the softened squared distance where that is positive and
  0 elsewhere; the rows come in the order of the bodies.
\<close>

theorem calc_acc_formula:
  assumes "length mass = length p"
  shows "calc_acc p mass G eps = Inr (map (acc_spec p mass G eps) [0..<length p])"
proof -
  let ?row = "\<lambda>a. (row_sum fst G eps p mass a,
                    row_sum (\<lambda>v. fst (snd v)) G eps p mass a,
                    row_sum (\<lambda>v. snd (snd v)) G eps p mass a)"
  have row: "?row (p ! i) = acc_spec p mass G eps i" if "i < length p" for i
    unfolding acc_spec_def fst_r_ij fst_snd_r_ij snd_snd_r_ij
    by (simp only: row_sum_spec[OF assms that])
  have "calc_acc p mass G eps = Inr (map ?row p)"
    using assms by (simp add: calc_acc_tab)
  also have "map ?row p = map (acc_spec p mass G eps) [0..<length p]"
    by (rule nth_equalityI) (simp_all add: row)
  finally show ?thesis .
qed

theorem calc_acc_formula_witness:
  "length [1, 3 :: real] = length [(0, 0, 0), (0, 2, 0) :: vec3]
   \<and> calc_acc [(0, 0, 0), (0, 2, 0)] [1, 3] 1 0 = Inr [(0, 3 / 4, 0), (0, - (1 / 4), 0)]"
  using calc_acc_formula [of "[1, 3]" "[(0, 0, 0), (0, 2, 0)]" 1 0]
  by (simp add: upt_2 lessThan_2_minus acc_spec_def inv_r3_spec_def r_ij_def norm2_def powr_4)

subsection \<open>Momentum, two bodies, coincident bodies, translation\<close>

lemma antisym_double_sum:
  fixes F :: "nat \<Rightarrow> nat \<Rightarrow> real"
  assumes "\<And>i j. F i j = - F j i"
  shows "(\<Sum>i<n. \<Sum>j<n. F i j) = 0"
proof -
  have "(\<Sum>i<n. \<Sum>j<n. F i j) = (\<Sum>j<n. \<Sum>i<n. F i j)"
    by (rule sum.swap)
  also have "\<dots> = (\<Sum>j<n. \<Sum>i<n. - F j i)"
    by (subst assms) (rule refl)
  also have "\<dots> = - (\<Sum>j<n. \<Sum>i<n. F j i)"
    by (simp add: sum_negf)
  finally show ?thesis by simp
qed

lemma weighted_row_sum_zero:
  assumes "length mass = length p"
  shows "sum_list (map2 (*) mass (map (row_sum c G s p mass) p)) = 0"
proof -
  let ?F = "\<lambda>i j. mass ! i * (G * ((c (p ! j) - c (p ! i)) * w s (p ! i) (p ! j)) * mass ! j)"
  have "sum_list (map2 (*) mass (map (row_sum c G s p mass) p)) =
      (\<Sum>i<length p. mass ! i * row_sum c G s p mass (p ! i))"
    using assms by (simp add: sum_list_map2_nth)
  also have "\<dots> = (\<Sum>i<length p. \<Sum>j<length p. ?F i j)"
    using assms by (simp add: row_sum_sum sum_distrib_left)
  also have "\<dots> = 0"
  proof (rule antisym_double_sum)
    fix i j
    have "c (p ! j) - c (p ! i) = - (c (p ! i) - c (p ! j))" by simp
    then show "?F i j = - ?F j i"
      by (simp add: w_sym[of s "p ! i" "p ! j"] algebra_simps)
  qed
  finally show ?thesis .
qed

text \<open>
  C4. For positions and masses of one length, any \<open>G\<close> and any softening, the accelerations
  that \<^verbatim>\<open>calc_acc\<close> returns have mass-weighted sum zero in each coordinate: the pairwise
  terms are equal and opposite.
\<close>

theorem calc_acc_momentum:
  assumes "length mass = length p"
  shows "\<exists>a. calc_acc p mass G eps = Inr a \<and> weighted_sum mass a = (0, 0, 0)"
proof -
  let ?a = "map (\<lambda>a. (row_sum fst G eps p mass a,
                      row_sum (\<lambda>v. fst (snd v)) G eps p mass a,
                      row_sum (\<lambda>v. snd (snd v)) G eps p mass a)) p"
  have a: "calc_acc p mass G eps = Inr ?a"
    using assms by (simp add: calc_acc_tab)
  have "weighted_sum mass ?a = (0, 0, 0)"
    unfolding weighted_sum_def col_hstack_tab using assms
    by (simp only: weighted_row_sum_zero)
  with a show ?thesis by blast
qed

theorem calc_acc_momentum_witness:
  "length [1, 3 :: real] = length [(0, 0, 0), (0, 2, 0) :: vec3]
   \<and> (\<exists>a. calc_acc [(0, 0, 0), (0, 2, 0)] [1, 3] 1 0 = Inr a
         \<and> weighted_sum [1, 3] a = (0, 0, 0))"
  using calc_acc_momentum [of "[1, 3]" "[(0, 0, 0), (0, 2, 0)]" 1 0]
  by simp

text \<open>
  C5. Two bodies of equal mass \<open>m\<close> at \<open>(-1, 0, 0)\<close> and \<open>(1, 0, 0)\<close>, with \<open>G = 1\<close> and
  no softening: the accelerations are \<open>(m/4, 0, 0)\<close> and \<open>(-m/4, 0, 0)\<close>.
\<close>

theorem calc_acc_two_bodies:
  "calc_acc [(- 1, 0, 0), (1, 0, 0)] [m, m] 1 0 = Inr [(m / 4, 0, 0), (- (m / 4), 0, 0)]"
proof -
  have "calc_acc [(- 1, 0, 0), (1, 0, 0)] [m, m] 1 0 =
      Inr [(2 * w 0 (- 1, 0, 0) (1, 0, 0) * m, 0, 0),
           (- (2 * w 0 (1, 0, 0) (- 1, 0, 0) * m), 0, 0)]"
    by (simp add: calc_acc_tab row_sum_def)
  then show ?thesis
    by (simp add: w_pair)
qed

subsection \<open>The values of the kernel are numbers\<close>

lemma mask_pow_fl_fin: "mask_pow_fl a = map (map Some) (mask_pow a)"
  by (simp add: mask_pow_fl_def mask_pow_def neg_power_def comp_def)

lemma times_fl_Some: "times_fl c (Some x) = Some (c * x)"
  by (simp add: times_fl_def)

lemma map2_times_fl: "map2 times_fl r (map Some q) = map Some (map2 (*) r q)"
proof (induction r arbitrary: q)
  case Nil
  show ?case by simp
next
  case (Cons x r)
  show ?case
    by (cases q) (simp_all add: Cons.IH times_fl_Some)
qed

lemma mat_mul_fl_fin: "mat_mul_fl a (map (map Some) b) = map (map Some) (mat_mul a b)"
  unfolding mat_mul_fl_def mat_mul_def
proof (induction a arbitrary: b)
  case Nil
  show ?case by simp
next
  case (Cons r a)
  show ?case
    by (cases b) (simp_all add: Cons.IH map2_times_fl)
qed

lemma scalar_mul_fl_fin: "scalar_mul_fl c (map (map Some) a) = map (map Some) (scalar_mul c a)"
  by (simp add: scalar_mul_fl_def scalar_mul_def times_fl_Some comp_def)

lemma ncols_fl_fin: "ncols_fl (map (map Some) a) = ncols a"
  by (cases a) (simp_all add: ncols_fl_def ncols_def)

lemma row_fl_fin:
  "foldr plus_fl (map2 (\<lambda>e m. times_fl m e) (map Some r) v) (Some 0) =
     Some (sum_list (map2 (*) r v))"
proof (induction r arbitrary: v)
  case Nil
  show ?case by simp
next
  case (Cons x r)
  show ?case
  proof (cases v)
    case Nil
    then show ?thesis by simp
  next
    case (Cons m v')
    have "foldr plus_fl (map2 (\<lambda>e m. times_fl m e) (map Some (x # r)) v) (Some 0) =
        plus_fl (times_fl m (Some x))
          (foldr plus_fl (map2 (\<lambda>e m. times_fl m e) (map Some r) v') (Some 0))"
      unfolding Cons by simp
    also have "\<dots> = plus_fl (times_fl m (Some x)) (Some (sum_list (map2 (*) r v')))"
      by (simp only: Cons.IH)
    also have "\<dots> = Some (sum_list (map2 (*) (x # r) v))"
      unfolding Cons by (simp add: plus_fl_def times_fl_def mult.commute)
    finally show ?thesis .
  qed
qed

lemma matmul_fl_fin:
  "matmul_fl (map (map Some) a) v = map_sum id (map Some) (matmul a v)"
  by (simp add: matmul_fl_def matmul_def ncols_fl_fin row_fl_fin comp_def)

lemma hstack_fl_fin: "hstack_fl (map Some ax) (map Some ay) (map Some az) = map fin3 (hstack ax ay az)"
  unfolding hstack_fl_def hstack_def
proof (induction ax arbitrary: ay az)
  case Nil
  show ?case by simp
next
  case (Cons x ax)
  show ?case
    by (cases ay; cases az) (simp_all add: Cons.IH fin3_def)
qed

lemma calc_acc_fl_fin:
  "calc_acc_fl p mass G s = map_sum id (map fin3) (calc_acc p mass G s)"
  unfolding calc_acc_fl_def calc_acc_def Let_def mask_pow_fl_fin mat_mul_fl_fin
    scalar_mul_fl_fin matmul_fl_fin
  by (simp add: hstack_fl_fin split: sum.splits)

lemma two_coincident: "calc_acc [a, a] [m1, m2] G 0 = Inr [(0, 0, 0), (0, 0, 0)]"
  by (simp add: calc_acc_tab row_sum_def w_def d2_def)

text \<open>
  C6. Without softening, two bodies at one position. The pair's entry of \<^verbatim>\<open>inv_r3\<close> is 0
  before line 29, and the power of 0 would not be a number; the mask does not select the
  entry, so after line 29 it is the number 0, and the pair's entry in each of the three
  matrices that are multiplied with \<^verbatim>\<open>mass\<close> is the number 0. For all positions, masses,
  \<open>G\<close> and softening, every value the kernel returns is a number, the one that the kernel
  over the reals returns.
\<close>

theorem coincident_pair_finite:
  assumes "i < length p" "j < length p" "p ! i = p ! j"
  shows "r2_matrix p 0 ! i ! j = 0
     \<and> neg_power (r2_matrix p 0 ! i ! j) = None
     \<and> mask_pow_fl (r2_matrix p 0) ! i ! j = Some 0
     \<and> scalar_mul_fl G (mat_mul_fl (sep (col0 p)) (mask_pow_fl (r2_matrix p 0))) ! i ! j = Some 0
     \<and> scalar_mul_fl G (mat_mul_fl (sep (col1 p)) (mask_pow_fl (r2_matrix p 0))) ! i ! j = Some 0
     \<and> scalar_mul_fl G (mat_mul_fl (sep (col2 p)) (mask_pow_fl (r2_matrix p 0))) ! i ! j = Some 0
     \<and> calc_acc_fl p mass G eps = map_sum id (map fin3) (calc_acc p mass G eps)"
proof -
  have r: "r2_matrix p 0 ! i ! j = 0"
    using assms unfolding r2_matrix_tab by (simp add: d2_def)
  have m: "mask_pow_fl (r2_matrix p 0) = map (map Some) (inv_r3_matrix p 0)"
    by (simp add: mask_pow_fl_fin inv_r3_matrix_def)
  have c: "scalar_mul_fl G (mat_mul_fl (sep (col0 p)) (mask_pow_fl (r2_matrix p 0))) ! i ! j = Some 0"
    "scalar_mul_fl G (mat_mul_fl (sep (col1 p)) (mask_pow_fl (r2_matrix p 0))) ! i ! j = Some 0"
    "scalar_mul_fl G (mat_mul_fl (sep (col2 p)) (mask_pow_fl (r2_matrix p 0))) ! i ! j = Some 0"
    using assms
    unfolding m mat_mul_fl_fin scalar_mul_fl_fin inv_r3_matrix_tab sep_col0 sep_col1 sep_col2
      mat_mul_tab scalar_mul_tab
    by simp_all
  have i: "mask_pow_fl (r2_matrix p 0) ! i ! j = Some 0"
    using assms unfolding m inv_r3_matrix_tab by (simp add: w_def d2_def)
  show ?thesis
    using r c i by (simp add: neg_power_def calc_acc_fl_fin)
qed

theorem coincident_pair_finite_witness:
  "(0::nat) < length [(1, 2, 3), (1, 2, 3) :: vec3]
   \<and> (1::nat) < length [(1, 2, 3), (1, 2, 3) :: vec3]
   \<and> [(1, 2, 3), (1, 2, 3) :: vec3] ! 0 = [(1, 2, 3), (1, 2, 3)] ! 1
   \<and> r2_matrix [(1, 2, 3), (1, 2, 3)] 0 ! 0 ! 1 = 0
   \<and> neg_power (r2_matrix [(1, 2, 3), (1, 2, 3)] 0 ! 0 ! 1) = None
   \<and> mask_pow_fl (r2_matrix [(1, 2, 3), (1, 2, 3)] 0) ! 0 ! 1 = Some 0
   \<and> calc_acc_fl [(1, 2, 3), (1, 2, 3)] [5, 7] 1 0 =
       Inr [(Some 0, Some 0, Some 0), (Some 0, Some 0, Some 0)]"
  using coincident_pair_finite [of 0 "[(1, 2, 3), (1, 2, 3)]" 1 1 "[5, 7]" 0]
  by (simp add: two_coincident fin3_def neg_power_def)

lemma sep_translate0: "sep (col0 (translate c p)) = sep (col0 p)"
  by (simp add: sep_def col0_def translate_def split_def comp_def)

lemma sep_translate1: "sep (col1 (translate c p)) = sep (col1 p)"
  by (simp add: sep_def col1_def translate_def split_def comp_def)

lemma sep_translate2: "sep (col2 (translate c p)) = sep (col2 p)"
  by (simp add: sep_def col2_def translate_def split_def comp_def)

text \<open>
  C10. Adding one vector to every position leaves the result of \<^verbatim>\<open>calc_acc\<close> unchanged,
  whatever the masses, \<open>G\<close> and the softening are.
\<close>

theorem calc_acc_translate:
  "calc_acc (translate c p) mass G eps = calc_acc p mass G eps"
  by (simp add: calc_acc_def sep_translate0 sep_translate1 sep_translate2)

section \<open>The kernel and the store\<close>

lemma calc_acc_store_result:
  assumes "p < length h" "m < length h" "h ! p = Nx3 ps" "h ! m = Nx1 ms"
  shows "calc_acc_store h p m G s =
     (case calc_acc ps ms G s of
        Inl e \<Rightarrow>
          (h @ [NxN (sep (col0 ps)), NxN (sep (col1 ps)), NxN (sep (col2 ps)),
                NxN (inv_r3_matrix ps s)], Inl e)
      | Inr a \<Rightarrow>
          (h @ [NxN (sep (col0 ps)), NxN (sep (col1 ps)), NxN (sep (col2 ps)),
                NxN (inv_r3_matrix ps s), Nx1 (col0 a), Nx1 (col1 a), Nx1 (col2 a), Nx3 a],
           Inr (length h + 7)))"
proof -
  define X where "X = scalar_mul G (mat_mul (sep (col0 ps)) (inv_r3_matrix ps s))"
  define Y where "Y = scalar_mul G (mat_mul (sep (col1 ps)) (inv_r3_matrix ps s))"
  define Z where "Z = scalar_mul G (mat_mul (sep (col2 ps)) (inv_r3_matrix ps s))"
  let ?pre = "h @ [NxN (sep (col0 ps)), NxN (sep (col1 ps)), NxN (sep (col2 ps)),
                NxN (inv_r3_matrix ps s)]"
  have store: "calc_acc_store h p m G s =
     (case matmul X ms of
        Inl e \<Rightarrow> (?pre, Inl e)
      | Inr vx \<Rightarrow>
         (case matmul Y ms of
            Inl e \<Rightarrow> (?pre @ [Nx1 vx], Inl e)
          | Inr vy \<Rightarrow>
              (case matmul Z ms of
                 Inl e \<Rightarrow> (?pre @ [Nx1 vx, Nx1 vy], Inl e)
               | Inr vz \<Rightarrow>
                   (?pre @ [Nx1 vx, Nx1 vy, Nx1 vz, Nx3 (hstack vx vy vz)],
                    Inr (length h + 7)))))"
    using assms
    by (simp add: calc_acc_store_def alloc_def read_view_def read_mat_def read_col_def
        nth_append Let_def X_def Y_def Z_def inv_r3_matrix_def r2_matrix_def list_update_append
        split: sum.splits)
  have pure: "calc_acc ps ms G s =
     (case matmul X ms of Inl e \<Rightarrow> Inl e
      | Inr vx \<Rightarrow> (case matmul Y ms of Inl e \<Rightarrow> Inl e
          | Inr vy \<Rightarrow> (case matmul Z ms of Inl e \<Rightarrow> Inl e
             | Inr vz \<Rightarrow> Inr (hstack vx vy vz))))"
    unfolding calc_acc_def Let_def X_def Y_def Z_def inv_r3_matrix_def r2_matrix_def
    by (rule refl)
  have tab: "X = map (\<lambda>a. map (\<lambda>b. G * ((fst b - fst a) * w s a b)) ps) ps"
    "Y = map (\<lambda>a. map (\<lambda>b. G * ((fst (snd b) - fst (snd a)) * w s a b)) ps) ps"
    "Z = map (\<lambda>a. map (\<lambda>b. G * ((snd (snd b) - snd (snd a)) * w s a b)) ps) ps"
    unfolding X_def Y_def Z_def inv_r3_matrix_tab sep_col0 sep_col1 sep_col2 mat_mul_tab
      scalar_mul_tab by (rule refl)+
  show ?thesis
    unfolding store pure unfolding tab matmul_tab
    by (simp add: hstack_tab col_hstack_tab)
qed

text \<open>
  C9. A call of \<^verbatim>\<open>calc_acc\<close> on a store that holds the positions at address \<open>p\<close> and the
  masses at address \<open>m\<close> leaves every array that existed before the call as it was, the two
  arguments among them: the call only appends arrays, and the one array it writes in
  place, \<^verbatim>\<open>inv_r3\<close>, is one of those it has appended. What it returns is what the kernel
  computes from the values of the arguments.
\<close>

theorem calc_acc_store_frame:
  assumes "p < length h" "m < length h" "h ! p = Nx3 ps" "h ! m = Nx1 ms"
  shows "take (length h) (fst (calc_acc_store h p m G s)) = h
     \<and> fst (calc_acc_store h p m G s) ! p = Nx3 ps
     \<and> fst (calc_acc_store h p m G s) ! m = Nx1 ms
     \<and> map_sum id (\<lambda>a. fst (calc_acc_store h p m G s) ! a) (snd (calc_acc_store h p m G s)) =
         map_sum id Nx3 (calc_acc ps ms G s)"
proof (cases "calc_acc ps ms G s")
  case (Inl e)
  show ?thesis
    using assms unfolding calc_acc_store_result [OF assms] Inl
    by (simp add: nth_append)
next
  case (Inr a)
  show ?thesis
    using assms unfolding calc_acc_store_result [OF assms] Inr
    by (simp add: nth_append)
qed

theorem calc_acc_store_frame_witness:
  "take 2 (fst (calc_acc_store [Nx3 [(0, 0, 0), (0, 2, 0)], Nx1 [1, 3]] 0 1 1 0)) =
      [Nx3 [(0, 0, 0), (0, 2, 0)], Nx1 [1, 3]]
   \<and> map_sum id (\<lambda>a. fst (calc_acc_store [Nx3 [(0, 0, 0), (0, 2, 0)], Nx1 [1, 3]] 0 1 1 0) ! a)
        (snd (calc_acc_store [Nx3 [(0, 0, 0), (0, 2, 0)], Nx1 [1, 3]] 0 1 1 0)) =
       map_sum id Nx3 (calc_acc [(0, 0, 0), (0, 2, 0)] [1, 3] 1 0)"
  using calc_acc_store_frame [of 0 "[Nx3 [(0, 0, 0), (0, 2, 0)], Nx1 [1, 3]]" 1
      "[(0, 0, 0), (0, 2, 0)]" "[1, 3]" 1 0]
  by (simp add: numeral_2_eq_2)

text \<open>
  C7, as the program has it. When the masses have another number of rows than the
  positions, the call ends in the ValueError of the first matrix product, line 31, and
  returns nothing; by then the arrays \<^verbatim>\<open>dx\<close>, \<^verbatim>\<open>dy\<close>, \<^verbatim>\<open>dz\<close> and \<^verbatim>\<open>inv_r3\<close> have been
  computed from the positions. Nothing is broadcast or truncated, and the arrays that
  existed before the call are as they were.
\<close>

theorem calc_acc_store_mismatch:
  assumes "p < length h" "m < length h" "h ! p = Nx3 ps" "h ! m = Nx1 ms"
    and "length ms \<noteq> length ps"
  shows "calc_acc ps ms G s = Inl ValueError
     \<and> calc_acc_store h p m G s =
         (h @ [NxN (sep (col0 ps)), NxN (sep (col1 ps)), NxN (sep (col2 ps)),
               NxN (inv_r3_matrix ps s)], Inl ValueError)"
proof -
  have e: "calc_acc ps ms G s = Inl ValueError"
    using assms(5) by (simp add: calc_acc_tab)
  show ?thesis
    unfolding calc_acc_store_result [OF assms(1-4)] e by simp
qed

theorem calc_acc_store_mismatch_witness:
  "calc_acc [(0, 0, 0)] [1, 1] 1 1 = Inl ValueError
   \<and> calc_acc_store [Nx3 [(0, 0, 0)], Nx1 [1, 1]] 0 1 1 1 =
       ([Nx3 [(0, 0, 0)], Nx1 [1, 1], NxN [[0]], NxN [[0]], NxN [[0]], NxN [[1]]],
        Inl ValueError)"
  using calc_acc_store_mismatch [of 0 "[Nx3 [(0, 0, 0)], Nx1 [1, 1]]" 1 "[(0, 0, 0)]" "[1, 1]" 1 1]
  by (simp add: sep_def col0_def col1_def col2_def inv_r3_matrix_tab w_def d2_def)

text \<open>
  C7, as it is stated, fails: two bodies and one mass. The call is rejected, but not
  before any computation: the store holds the separations and the inverse cubes of the
  two bodies when the error is raised.
\<close>

theorem mismatch_rejected_after_computation:
  "snd (calc_acc_store [Nx3 [(0, 0, 0), (3, 4, 0)], Nx1 [1]] 0 1 1 0) = Inl ValueError
   \<and> fst (calc_acc_store [Nx3 [(0, 0, 0), (3, 4, 0)], Nx1 [1]] 0 1 1 0) =
       [Nx3 [(0, 0, 0), (3, 4, 0)], Nx1 [1],
        NxN [[0, 3], [- 3, 0]], NxN [[0, 4], [- 4, 0]], NxN [[0, 0], [0, 0]],
        NxN [[0, 1 / 125], [1 / 125, 0]]]"
proof -
  have "calc_acc [(0, 0, 0), (3, 4, 0)] [1] 1 0 = Inl ValueError"
    by (simp add: calc_acc_tab)
  then show ?thesis
    using calc_acc_store_result [of 0 "[Nx3 [(0, 0, 0), (3, 4, 0)], Nx1 [1]]" 1
        "[(0, 0, 0), (3, 4, 0)]" "[1]" 1 0]
    by (simp add: sep_def col0_def col1_def col2_def inv_r3_matrix_tab w_def d2_def powr_25)
qed

section \<open>Properties of the time loop\<close>

subsection \<open>One iteration\<close>

lemma length_advance_all: "length (advance_all xs vs h) = length xs"
  by (simp add: advance_all_def)

lemma length_accel_spec: "length (accel_spec p mass G eps) = length p"
  by (simp add: accel_spec_def)

lemma add3_kick:
  assumes "length b = length a"
  shows "add3 a (div_scalar3 (mul_scalar3 b dt) 2) = Inr (advance_all a b (dt / 2))"
proof -
  have "map2 (\<lambda>(x, y, z) (x2, y2, z2). (x + x2, y + y2, z + z2)) a
      (div_scalar3 (mul_scalar3 b dt) 2) = advance_all a b (dt / 2)"
    using assms
    by (intro nth_equalityI)
      (simp_all add: advance_all_def advance_def div_scalar3_def mul_scalar3_def split_def)
  then show ?thesis
    using assms by (simp add: add3_def div_scalar3_def mul_scalar3_def)
qed

lemma add3_drift:
  assumes "length v = length p"
  shows "add3 p (mul_scalar3 v dt) = Inr (advance_all p v dt)"
proof -
  have "map2 (\<lambda>(x, y, z) (x2, y2, z2). (x + x2, y + y2, z + z2)) p (mul_scalar3 v dt) =
      advance_all p v dt"
    using assms
    by (intro nth_equalityI)
      (simp_all add: advance_all_def advance_def mul_scalar3_def split_def)
  then show ?thesis
    using assms by (simp add: add3_def mul_scalar3_def)
qed

lemma calc_acc_accel_spec:
  assumes "length mass = length p"
  shows "calc_acc p mass G eps = Inr (accel_spec p mass G eps)"
proof -
  let ?row = "\<lambda>a. (row_sum fst G eps p mass a,
                    row_sum (\<lambda>v. fst (snd v)) G eps p mass a,
                    row_sum (\<lambda>v. snd (snd v)) G eps p mass a)"
  have row: "?row (p ! i) = acc_spec p mass G eps i" if "i < length p" for i
    unfolding acc_spec_def fst_r_ij fst_snd_r_ij snd_snd_r_ij
    by (simp only: row_sum_spec[OF assms that])
  have "map ?row p = map (acc_spec p mass G eps) [0..<length p]"
    by (rule nth_equalityI) (simp_all add: row)
  then show ?thesis
    using assms by (simp add: calc_acc_tab accel_spec_def)
qed

lemma set_slice_ok:
  "k < length ps \<Longrightarrow> length p = length (ps ! k) \<Longrightarrow> set_slice ps k p = Inr (ps[k := p])"
  by (simp add: set_slice_def)

lemma kdk_step_result:
  assumes "length (vel s) = length (pos s)" "length (acc s) = length (pos s)"
    and "length mass = length (pos s)" "Suc i < length (pos_save s)"
    and "length (pos_save s ! Suc i) = length (pos s)"
  shows "kdk_step mass G softening dt i s =
     (let v1 = advance_all (vel s) (acc s) (dt / 2);
          p1 = advance_all (pos s) v1 dt;
          a1 = accel_spec p1 mass G softening;
          v2 = advance_all v1 a1 (dt / 2)
      in Inr \<lparr>pos = p1, vel = v2, acc = a1, t = t s + dt,
              pos_save = (pos_save s)[Suc i := p1], t_all = t_all s, events = events s\<rparr>)"
proof -
  define v1 where "v1 = advance_all (vel s) (acc s) (dt / 2)"
  define p1 where "p1 = advance_all (pos s) v1 dt"
  define a1 where "a1 = accel_spec p1 mass G softening"
  define v2 where "v2 = advance_all v1 a1 (dt / 2)"
  have k1: "add3 (vel s) (div_scalar3 (mul_scalar3 (acc s) dt) 2) = Inr v1"
    unfolding v1_def using assms(1,2) by (intro add3_kick) simp
  have lv1: "length v1 = length (pos s)"
    using assms(1) by (simp add: v1_def length_advance_all)
  have d: "add3 (pos s) (mul_scalar3 v1 dt) = Inr p1"
    unfolding p1_def using lv1 by (intro add3_drift)
  have lp1: "length p1 = length (pos s)"
    by (simp add: p1_def length_advance_all)
  have a: "calc_acc p1 mass G softening = Inr a1"
    unfolding a1_def using assms(3) lp1 by (intro calc_acc_accel_spec) simp
  have la1: "length a1 = length v1"
    using lp1 lv1 by (simp add: a1_def length_accel_spec)
  have k2: "add3 v1 (div_scalar3 (mul_scalar3 a1 dt) 2) = Inr v2"
    unfolding v2_def using la1 by (intro add3_kick)
  have sl: "set_slice (pos_save s) (Suc i) p1 = Inr ((pos_save s)[Suc i := p1])"
    using assms(4,5) lp1 by (intro set_slice_ok) simp_all
  show ?thesis
    unfolding Let_def v1_def[symmetric] p1_def[symmetric] a1_def[symmetric] v2_def[symmetric]
    by (simp add: kdk_step_def k1 d a k2 sl)
qed

lemma loop_body_result:
  assumes "length (vel s) = length (pos s)" "length (acc s) = length (pos s)"
    and "length mass = length (pos s)" "Suc i < length (pos_save s)"
    and "length (pos_save s ! Suc i) = length (pos s)"
  shows "loop_body mass G softening dt plotRealTime Nt i s =
     (let v1 = advance_all (vel s) (acc s) (dt / 2);
          p1 = advance_all (pos s) v1 dt;
          a1 = accel_spec p1 mass G softening;
          v2 = advance_all v1 a1 (dt / 2)
      in Inr \<lparr>pos = p1, vel = v2, acc = a1, t = t s + dt,
              pos_save = (pos_save s)[Suc i := p1], t_all = t_all s,
              events = events s @ frames plotRealTime Nt i\<rparr>)"
  unfolding loop_body_def kdk_step_result [OF assms]
  by (simp add: Let_def plot_frame_def frames_def)

lemma str_0: "str 0 = ''0''"
  by (simp add: str.simps [of 0] digit_def)

lemma str_1: "str (Suc 0) = ''1''"
  by (simp add: str.simps [of "Suc 0"] digit_def)

lemma accel_spec_single: "accel_spec [a] [m] G eps = [(0, 0, 0)]"
  by (simp add: accel_spec_def acc_spec_def)


lemma advance_all_single: "advance_all [x] [v] h = [advance x v h]"
  by (simp add: advance_all_def)





subsection \<open>The run\<close>

lemma for_range_upt:
  assumes step: "\<And>i s. i < n \<Longrightarrow> I i s \<Longrightarrow> \<exists>s'. body i s = Inr s' \<and> I (Suc i) s'"
  shows "j \<le> n \<Longrightarrow> I j s \<Longrightarrow> \<exists>s'. for_range body [j..<n] s = Inr s' \<and> I n s'"
proof (induction "n - j" arbitrary: j s)
  case 0
  then show ?case by simp
next
  case (Suc d)
  from Suc.hyps(2) have jn: "j < n" by simp
  from step [OF jn Suc.prems(2)]
  obtain s1 where s1: "body j s = Inr s1" "I (Suc j) s1" by blast
  have "d = n - Suc j" using Suc.hyps(2) by simp
  from Suc.hyps(1) [OF this _ s1(2)] jn
  obtain s' where "for_range body [Suc j..<n] s1 = Inr s'" "I n s'" by auto
  then show ?case
    using jn s1(1) by (simp add: upt_conv_Cons)
qed

lemma loop_inv_step:
  assumes inv: "loop_inv mass G eps dt plotRealTime Nt N n pva ts ev j s"
    and j: "j < n" and m: "length mass = N"
  shows "\<exists>s'. loop_body mass G eps dt plotRealTime Nt j s = Inr s'
           \<and> loop_inv mass G eps dt plotRealTime Nt N n pva ts ev (Suc j) s'"
proof -
  let ?LF = "leapfrog_spec mass G eps dt"
  from inv have cur: "(pos s, vel s, acc s) = (?LF ^^ j) pva"
    and len: "length (pos s) = N" "length (vel s) = N" "length (acc s) = N"
    and lps: "length (pos_save s) = Suc n"
    and rows: "\<forall>k < Suc n. length (pos_save s ! k) = N"
    and hist: "\<forall>k \<le> j. pos_save s ! k = fst ((?LF ^^ k) pva)"
    and tm: "t s = real j * dt" and ta: "t_all s = ts"
    and ev: "events s = ev @ concat (map (frames plotRealTime Nt) [0..<j])"
    by (simp_all add: loop_inv_def)
  define v1 where "v1 = advance_all (vel s) (acc s) (dt / 2)"
  define p1 where "p1 = advance_all (pos s) v1 dt"
  define a1 where "a1 = accel_spec p1 mass G eps"
  define v2 where "v2 = advance_all v1 a1 (dt / 2)"
  define s' where "s' = \<lparr>pos = p1, vel = v2, acc = a1, t = t s + dt,
      pos_save = (pos_save s)[Suc j := p1], t_all = t_all s,
      events = events s @ frames plotRealTime Nt j\<rparr>"
  have sj: "Suc j < length (pos_save s)" using j lps by simp
  have rj: "length (pos_save s ! Suc j) = length (pos s)"
    using rows j len(1) by simp
  have body: "loop_body mass G eps dt plotRealTime Nt j s = Inr s'"
    using len m sj rj
    by (simp add: loop_body_result Let_def s'_def v1_def p1_def a1_def v2_def)
  have next_pva: "(p1, v2, a1) = (?LF ^^ Suc j) pva"
    unfolding funpow.simps o_def cur [symmetric]
    by (simp add: leapfrog_spec_def Let_def v1_def p1_def a1_def v2_def)
  have lp1: "length p1 = N"
    using len by (simp add: p1_def length_advance_all)
  have lv2: "length v2 = N"
    using len by (simp add: v2_def v1_def length_advance_all)
  have la1: "length a1 = N"
    using lp1 by (simp add: a1_def length_accel_spec)
  have rows': "\<forall>k < Suc n. length ((pos_save s)[Suc j := p1] ! k) = N"
  proof (intro allI impI)
    fix k assume "k < Suc n"
    with rows have "length (pos_save s ! k) = N" by simp
    then show "length ((pos_save s)[Suc j := p1] ! k) = N"
      using sj lp1 by (simp add: nth_list_update)
  qed
  have hist': "\<forall>k \<le> Suc j. (pos_save s)[Suc j := p1] ! k = fst ((?LF ^^ k) pva)"
  proof (intro allI impI)
    fix k assume k: "k \<le> Suc j"
    show "(pos_save s)[Suc j := p1] ! k = fst ((?LF ^^ k) pva)"
    proof (cases "k = Suc j")
      case True
      then show ?thesis
        using sj next_pva [symmetric] by simp
    next
      case False
      with k have "k \<le> j" by simp
      with hist False show ?thesis by simp
    qed
  qed
  have tm': "t s + dt = real (Suc j) * dt"
    using tm by (simp add: algebra_simps)
  have ev': "events s @ frames plotRealTime Nt j =
      ev @ concat (map (frames plotRealTime Nt) [0..<Suc j])"
    using ev by simp
  have "loop_inv mass G eps dt plotRealTime Nt N n pva ts ev (Suc j) s'"
    unfolding loop_inv_def s'_def
    using next_pva lp1 lv2 la1 lps rows' hist' tm' ta ev'
    by (simp del: funpow.simps upt_Suc)
  with body show ?thesis by blast
qed

lemma main_loop_result:
  assumes "loop_inv mass G eps dt plotRealTime Nt N n pva ts ev 0 s" "length mass = N"
  shows "\<exists>s'. for_range (loop_body mass G eps dt plotRealTime Nt) [0..<n] s = Inr s'
           \<and> loop_inv mass G eps dt plotRealTime Nt N n pva ts ev n s'"
proof (rule for_range_upt [where I = "loop_inv mass G eps dt plotRealTime Nt N n pva ts ev"])
  fix i u
  assume "i < n" "loop_inv mass G eps dt plotRealTime Nt N n pva ts ev i u"
  then show "\<exists>s'. loop_body mass G eps dt plotRealTime Nt i u = Inr s'
      \<and> loop_inv mass G eps dt plotRealTime Nt N n pva ts ev (Suc i) s'"
    using assms(2) by (intro loop_inv_step)
next
  show "0 \<le> n" by simp
next
  show "loop_inv mass G eps dt plotRealTime Nt N n pva ts ev 0 s"
    by (rule assms(1))
qed

lemma concat_frames:
  "concat (map (frames plotRealTime Nt) ixs) =
     map (\<lambda>i. Savefig (''images/'' @ str i @ ''.png''))
       (filter (\<lambda>i. plotRealTime \<or> int i = Nt - 1) ixs)"
  by (induction ixs) (simp_all add: frames_def)

lemma run_result:
  assumes "length v = length p" "length mass = length p" "dt \<noteq> 0" "0 \<le> \<lceil>fdiv tEnd dt\<rceil>"
  shows "\<exists>s. run fdiv p v mass G eps dt tEnd plotRealTime = Inr (s\<lparr>events := events s @ [Show]\<rparr>)
     \<and> loop_inv mass G eps dt plotRealTime \<lceil>fdiv tEnd dt\<rceil> (length p) (nat \<lceil>fdiv tEnd dt\<rceil>)
          (p, v, accel_spec p mass G eps)
          (map (\<lambda>k. real k * dt) [0..<Suc (nat \<lceil>fdiv tEnd dt\<rceil>)]) [NewFigure]
          (nat \<lceil>fdiv tEnd dt\<rceil>) s"
proof -
  define Nt where "Nt = \<lceil>fdiv tEnd dt\<rceil>"
  define a where "a = accel_spec p mass G eps"
  have a: "calc_acc p mass G eps = Inr a"
    unfolding a_def by (rule calc_acc_accel_spec [OF assms(2)])
  have la: "length a = length p"
    by (simp add: a_def length_accel_spec)
  define ps where "ps = (replicate (nat (Nt + 1)) (replicate (length p) (0, 0, 0)))[0 := p]"
  define s0 where "s0 = \<lparr>pos = p, vel = v, acc = a, t = 0, pos_save = ps,
      t_all = map (\<lambda>k. real k * dt) [0..<nat (Nt + 1)], events = [NewFigure]\<rparr>"
  have Nt: "0 \<le> Nt" using assms(4) by (simp add: Nt_def)
  then have n1: "nat (Nt + 1) = Suc (nat Nt)" by simp
  have sl: "set_slice (replicate (nat (Nt + 1)) (replicate (length p) (0, 0, 0))) 0 p = Inr ps"
    unfolding ps_def by (intro set_slice_ok) (simp_all add: n1)
  have rows: "\<forall>k < Suc (nat Nt). length (ps ! k) = length p"
    by (simp add: ps_def n1 nth_list_update nth_Cons split: nat.splits)
  have inv0: "loop_inv mass G eps dt plotRealTime Nt (length p) (nat Nt) (p, v, a)
      (map (\<lambda>k. real k * dt) [0..<Suc (nat Nt)]) [NewFigure] 0 s0"
    unfolding loop_inv_def using assms(1) la rows
    by (simp add: s0_def n1 ps_def)
  from main_loop_result [OF inv0 assms(2)]
  obtain s' where s':
    "for_range (loop_body mass G eps dt plotRealTime Nt) [0..<nat Nt] s0 = Inr s'"
    "loop_inv mass G eps dt plotRealTime Nt (length p) (nat Nt) (p, v, a)
      (map (\<lambda>k. real k * dt) [0..<Suc (nat Nt)]) [NewFigure] (nat Nt) s'"
    by blast
  have "run fdiv p v mass G eps dt tEnd plotRealTime = Inr (s'\<lparr>events := events s' @ [Show]\<rparr>)"
    using Nt assms(3) s'(1)
    by (simp add: run_def a Let_def Nt_def[symmetric] sl s0_def[symmetric])
  with s'(2) show ?thesis
    unfolding Nt_def a_def by blast
qed

lemma leapfrog_single:
  "leapfrog_spec [m] G eps dt ([x], [v], [(0, 0, 0)]) =
     ([advance x v dt], [v], [(0, 0, 0)])"
  by (simp add: leapfrog_spec_def Let_def advance_all_single accel_spec_single advance_def)

text \<open>
  C3. With velocities and masses of the length of the positions, a time step other than
  zero and a step count \<open>Nt\<close>, the ceiling of the quotient \<^verbatim>\<open>tEnd/dt\<close> as the machine
  computes it, that is not negative, the run ends without an exception. \<^verbatim>\<open>pos_save\<close>
  then has \<open>Nt + 1\<close> slices, slice 0 holds the initial positions, slice \<open>k\<close> the positions
  after \<open>k\<close> transitions of the specification from the initial state, and the variables
  \<^verbatim>\<open>pos\<close>, \<^verbatim>\<open>vel\<close>, \<^verbatim>\<open>acc\<close> and \<^verbatim>\<open>t\<close> are those after \<open>Nt\<close> transitions;
  \<^verbatim>\<open>t_all\<close> has \<open>Nt + 1\<close> entries, entry \<open>i\<close> being \<open>i * dt\<close>.
\<close>

theorem run_history:
  assumes "length v = length p" "length mass = length p" "dt \<noteq> 0" "0 \<le> \<lceil>fdiv tEnd dt\<rceil>"
  shows "\<exists>s. run fdiv p v mass G softening dt tEnd plotRealTime = Inr s
     \<and> length (pos_save s) = nat \<lceil>fdiv tEnd dt\<rceil> + 1
     \<and> pos_save s ! 0 = p
     \<and> (\<forall>k \<le> nat \<lceil>fdiv tEnd dt\<rceil>.
           pos_save s ! k =
             fst ((leapfrog_spec mass G softening dt ^^ k) (p, v, accel_spec p mass G softening)))
     \<and> (pos s, vel s, acc s) =
         (leapfrog_spec mass G softening dt ^^ nat \<lceil>fdiv tEnd dt\<rceil>)
           (p, v, accel_spec p mass G softening)
     \<and> t s = real (nat \<lceil>fdiv tEnd dt\<rceil>) * dt
     \<and> length (t_all s) = nat \<lceil>fdiv tEnd dt\<rceil> + 1
     \<and> (\<forall>i \<le> nat \<lceil>fdiv tEnd dt\<rceil>. t_all s ! i = real i * dt)"
proof -
  let ?n = "nat \<lceil>fdiv tEnd dt\<rceil>"
  let ?LF = "leapfrog_spec mass G softening dt"
  let ?init = "(p, v, accel_spec p mass G softening)"
  from run_result [where fdiv = fdiv and tEnd = tEnd and G = G and eps = softening
      and plotRealTime = plotRealTime, OF assms]
  obtain s where r: "run fdiv p v mass G softening dt tEnd plotRealTime =
      Inr (s\<lparr>events := events s @ [Show]\<rparr>)"
    and inv: "loop_inv mass G softening dt plotRealTime \<lceil>fdiv tEnd dt\<rceil> (length p) ?n ?init
      (map (\<lambda>k. real k * dt) [0..<Suc ?n]) [NewFigure] ?n s"
    by blast
  from inv have cur: "(pos s, vel s, acc s) = (?LF ^^ ?n) ?init"
    and lps: "length (pos_save s) = Suc ?n"
    and hist: "\<forall>k \<le> ?n. pos_save s ! k = fst ((?LF ^^ k) ?init)"
    and tm: "t s = real ?n * dt"
    and ta: "t_all s = map (\<lambda>k. real k * dt) [0..<Suc ?n]"
    by (simp_all add: loop_inv_def)
  from hist have h0: "pos_save s ! 0 = p"
    by (simp del: funpow.simps add: funpow_0)
  have tn: "t_all s ! i = real i * dt" if "i \<le> ?n" for i
  proof -
    from that have "i < length [0..<Suc ?n]" by simp
    then show ?thesis
      unfolding ta by (simp only: nth_map nth_upt add_0 length_upt minus_nat.diff_0)
  qed
  have tl: "length (t_all s) = ?n + 1"
    unfolding ta by simp
  show ?thesis
    unfolding r using cur lps hist tm tl tn h0
    by (intro exI [of _ "s\<lparr>events := events s @ [Show]\<rparr>"]) simp
qed

theorem run_history_witness:
  "\<exists>s. run (/) [(1, 2, 3)] [(1, 0, 0)] [1] 1 0 (1 / 2) 1 True = Inr s
     \<and> length (pos_save s) = 3
     \<and> pos_save s ! 0 = [(1, 2, 3)]
     \<and> pos_save s ! 1 = [(3 / 2, 2, 3)]
     \<and> pos_save s ! 2 = [(2, 2, 3)]
     \<and> pos s = [(2, 2, 3)]
     \<and> t s = 1
     \<and> length (t_all s) = 3
     \<and> t_all s ! 0 = 0 \<and> t_all s ! 1 = 1 / 2 \<and> t_all s ! 2 = 1"
proof -
  let ?LF = "leapfrog_spec [1] 1 0 (1 / 2)"
  let ?init = "([(1, 2, 3)], [(1, 0, 0)], accel_spec [(1, 2, 3)] [1] 1 0)"
  have n: "nat \<lceil>(1::real) / (1 / 2)\<rceil> = 2" by simp
  from run_history [where fdiv = "(/)" and v = "[(1, 0, 0)]" and p = "[(1, 2, 3)]"
      and mass = "[1]" and dt = "1 / 2" and tEnd = 1 and G = 1 and softening = 0
      and plotRealTime = True]
  obtain s where s: "run (/) [(1, 2, 3)] [(1, 0, 0)] [1] 1 0 (1 / 2) 1 True = Inr s"
    "length (pos_save s) = 3" "pos_save s ! 0 = [(1, 2, 3)]" "length (t_all s) = 3"
    and hist: "\<forall>k \<le> 2. pos_save s ! k = fst ((?LF ^^ k) ?init)"
    and cur: "(pos s, vel s, acc s) = (?LF ^^ 2) ?init"
    and tm: "t s = real 2 * (1 / 2)"
    and ts: "\<forall>i \<le> 2. t_all s ! i = real i * (1 / 2)"
    unfolding n by auto
  have l1: "(?LF ^^ 1) ?init = ([(3 / 2, 2, 3)], [(1, 0, 0)], [(0, 0, 0)])"
    by (simp add: accel_spec_single leapfrog_single advance_def)
  have l2: "(?LF ^^ 2) ?init = ([(2, 2, 3)], [(1, 0, 0)], [(0, 0, 0)])"
    by (simp add: numeral_2_eq_2 accel_spec_single leapfrog_single advance_def)
  have "pos_save s ! 1 = [(3 / 2, 2, 3)]" "pos_save s ! 2 = [(2, 2, 3)]"
    using hist [rule_format, of 1] hist [rule_format, of 2] l1 l2 by simp_all
  moreover have "pos s = [(2, 2, 3)]" "t s = 1"
    using cur tm l2 by simp_all
  moreover have "t_all s ! 0 = 0" "t_all s ! 1 = 1 / 2" "t_all s ! 2 = 1"
    using ts [rule_format, of 0] ts [rule_format, of 1] ts [rule_format, of 2]
    by simp_all
  ultimately show ?thesis
    using s by blast
qed

lemma length_randn_array: "length (randn_array randn k N) = N"
  by (simp add: randn_array_def)

lemma length_to_com_frame: "length (to_com_frame mass v) = length v"
  by (simp add: to_com_frame_def Let_def split_def)

lemma main_result:
  assumes "fdiv 10 (1 / 100) = 1000"
  shows "\<exists>s. main fdiv randn = Inr s
     \<and> length (pos_save s) = 1001
     \<and> pos_save s ! 0 = randn_array randn 0 100
     \<and> t_all s = map (\<lambda>k. real k * (1 / 100)) [0..<1001]"
proof -
  have c: "\<lceil>fdiv 10 (1 / 100)\<rceil> = 1000"
    by (simp add: assms)
  from run_result [where fdiv = fdiv
      and v = "to_com_frame (map (\<lambda>m. 20 * m / real (100::nat)) (replicate 100 1))
        (randn_array randn (3 * 100) 100)" and p = "randn_array randn 0 100"
      and mass = "map (\<lambda>m. 20 * m / real (100::nat)) (replicate 100 1)" and dt = "1 / 100"
      and tEnd = 10 and G = 1 and eps = "1 / 10" and plotRealTime = True]
  obtain s where s: "main fdiv randn = Inr (s\<lparr>events := events s @ [Show]\<rparr>)"
    and inv: "loop_inv (map (\<lambda>m. 20 * m / real (100::nat)) (replicate 100 1)) 1 (1 / 10)
      (1 / 100) True 1000 100 1000
      (randn_array randn 0 100,
       to_com_frame (map (\<lambda>m. 20 * m / real (100::nat)) (replicate 100 1))
         (randn_array randn (3 * 100) 100),
       accel_spec (randn_array randn 0 100)
         (map (\<lambda>m. 20 * m / real (100::nat)) (replicate 100 1)) 1 (1 / 10))
      (map (\<lambda>k. real k * (1 / 100)) [0..<Suc 1000]) [NewFigure] 1000 s"
    unfolding main_def Let_def c
    by (auto simp: length_randn_array length_to_com_frame)
  from inv have "length (pos_save s) = 1001" "pos_save s ! 0 = randn_array randn 0 100"
    "t_all s = map (\<lambda>k. real k * (1 / 100)) [0..<1001]"
    unfolding loop_inv_def by (auto simp del: upt_Suc funpow.simps)
  with s show ?thesis
    by (intro exI [of _ "s\<lparr>events := events s @ [Show]\<rparr>"]) simp
qed

text \<open>
  C8, as the program has it. Besides the history and the times, a run opens a figure
  before the loop, writes the frame \<^verbatim>\<open>images/<i>.png\<close> in every step \<open>i\<close> of the loop
  when \<^verbatim>\<open>plotRealTime\<close> is set, as \<^verbatim>\<open>main\<close> sets it, and in the last step,
  \<open>i = Nt - 1\<close>, when it is not, and shows the figure after the loop.
\<close>

theorem run_events:
  assumes "length v = length p" "length mass = length p" "dt \<noteq> 0" "0 \<le> \<lceil>fdiv tEnd dt\<rceil>"
  shows "\<exists>s. run fdiv p v mass G softening dt tEnd plotRealTime = Inr s
     \<and> events s =
         [NewFigure]
         @ map (\<lambda>i. Savefig (''images/'' @ str i @ ''.png''))
             (filter (\<lambda>i. plotRealTime \<or> int i = \<lceil>fdiv tEnd dt\<rceil> - 1)
                [0..<nat \<lceil>fdiv tEnd dt\<rceil>])
         @ [Show]"
proof -
  from run_result [where fdiv = fdiv and tEnd = tEnd and G = G and eps = softening
      and plotRealTime = plotRealTime, OF assms]
  obtain s where r: "run fdiv p v mass G softening dt tEnd plotRealTime =
      Inr (s\<lparr>events := events s @ [Show]\<rparr>)"
    and ev: "events s = [NewFigure] @ concat (map (frames plotRealTime \<lceil>fdiv tEnd dt\<rceil>)
        [0..<nat \<lceil>fdiv tEnd dt\<rceil>])"
    by (auto simp: loop_inv_def)
  show ?thesis
    unfolding r using ev by (simp add: concat_frames)
qed

theorem run_events_witness:
  "\<exists>s. run (/) [(0, 0, 0)] [(1, 0, 0)] [1] 1 0 1 1 False = Inr s
     \<and> events s = [NewFigure, Savefig ''images/0.png'', Show]"
  using run_events [where fdiv = "(/)" and v = "[(1, 0, 0)]" and p = "[(0, 0, 0)]"
      and mass = "[1]" and dt = 1 and tEnd = 1 and G = 1 and softening = 0
      and plotRealTime = False]
  by (simp add: str_0)

text \<open>
  C8, as it is stated, fails: a run of two steps writes two files inside the loop.
\<close>

theorem run_renders_in_loop:
  "map_sum id events (run (/) [(0, 0, 0)] [(1, 0, 0)] [1] 1 0 (1 / 2) 1 True) =
     Inr [NewFigure, Savefig ''images/0.png'', Savefig ''images/1.png'', Show]"
  using run_result [where fdiv = "(/)" and v = "[(1, 0, 0)]" and p = "[(0, 0, 0)]"
      and mass = "[1]" and dt = "1 / 2" and tEnd = 1 and G = 1 and eps = 0
      and plotRealTime = True]
  by (auto simp: loop_inv_def frames_def str_0 str_1 upt_2)

end
